theory Spec2Isabelle
  imports Complex_Main
begin

section \<open>Numeric arrays and the error metrics of the prediction cell\<close>

text \<open>
  The notebooks compute, in the cell \<open>potential-kingston\<close>,
  \<^verbatim>\<open>np.mean((true_energies - pred_energies) ** 2)\<close> and
  \<^verbatim>\<open>np.mean(np.abs(true_energies - pred_energies))\<close>
  on two one-dimensional arrays. Array entries are idealised as real numbers (rounding is
  not modelled); the one floating-point value kept is \<open>nan\<close>, which \<open>np.mean\<close> returns for
  an array with no entry (the sum \<open>0.0\<close> divided by the count \<open>0\<close>) and which HOL's total
  division would turn into \<open>0\<close>.
\<close>

datatype py_error = ValueError | IndexError | AssertionError

datatype npfloat = Fin real | NaN

type_synonym ndarray = "real list"

definition np_sub :: "ndarray \<Rightarrow> ndarray \<Rightarrow> py_error + ndarray" where
  \<comment> \<open>\<open>a - b\<close> on one-dimensional arrays: equal shapes are subtracted entry by entry, a
      one-entry operand is broadcast, any other pair of shapes raises \<open>ValueError\<close>.\<close>
  "np_sub xs ys =
     (if length xs = length ys then Inr (map2 (-) xs ys)
      else if length ys = 1 then Inr (map (\<lambda>x. x - hd ys) xs)
      else if length xs = 1 then Inr (map (\<lambda>y. hd xs - y) ys)
      else Inl ValueError)"

definition np_square :: "ndarray \<Rightarrow> ndarray" where
  \<comment> \<open>\<open>a ** 2\<close>\<close>
  "np_square xs = map (\<lambda>x. x ^ 2) xs"

definition np_abs :: "ndarray \<Rightarrow> ndarray" where
  "np_abs xs = map abs xs"

definition np_mean :: "ndarray \<Rightarrow> npfloat" where
  \<comment> \<open>the sum of the entries over their count; \<open>nan\<close> (with a RuntimeWarning) when the
      count is zero\<close>
  "np_mean xs = (if xs = [] then NaN else Fin (sum_list xs / real (length xs)))"

definition energy_mse :: "ndarray \<Rightarrow> ndarray \<Rightarrow> py_error + npfloat" where
  "energy_mse true_energies pred_energies =
     (case np_sub true_energies pred_energies of
        Inl e \<Rightarrow> Inl e
      | Inr d \<Rightarrow> Inr (np_mean (np_square d)))"

definition energy_mae :: "ndarray \<Rightarrow> ndarray \<Rightarrow> py_error + npfloat" where
  "energy_mae true_energies pred_energies =
     (case np_sub true_energies pred_energies of
        Inl e \<Rightarrow> Inl e
      | Inr d \<Rightarrow> Inr (np_mean (np_abs d)))"

text \<open>
  The reference definitions, written after the specification's words: the mean over
  \<open>i = 1..N\<close> of \<open>(T\<^sub>i - P\<^sub>i)\<^sup>2\<close>, and of \<open>|T\<^sub>i - P\<^sub>i|\<close>.
\<close>

definition mse_reference :: "real list \<Rightarrow> real list \<Rightarrow> real" where
  "mse_reference T P = (\<Sum>i<length T. (T ! i - P ! i) ^ 2) / real (length T)"

definition mae_reference :: "real list \<Rightarrow> real list \<Rightarrow> real" where
  "mae_reference T P = (\<Sum>i<length T. \<bar>T ! i - P ! i\<bar>) / real (length T)"

fun np_ge0 :: "npfloat \<Rightarrow> bool" where
  \<comment> \<open>the comparison \<open>v >= 0\<close>, false for \<open>nan\<close>\<close>
  "np_ge0 (Fin x) = (0 \<le> x)"
| "np_ge0 NaN = False"

fun metric_nonneg :: "py_error + npfloat \<Rightarrow> bool" where
  "metric_nonneg (Inr v) = np_ge0 v"
| "metric_nonneg (Inl e) = False"


section \<open>Python slices and the trajectory loader\<close>

text \<open>
  The cell \<open>alternative-starter\<close> of the GMP notebook loads its training set with
  \<^verbatim>\<open>ase.io.read("./data/single_water_2D.traj", index="::10")\<close>. The index string
  \<open>"::10"\<close> stands for \<open>slice(None, None, 10)\<close>; the reader yields the stored image at
  every index of \<open>range(*index.indices(len(trajectory)))\<close>. The stored images are the
  parameter \<open>stored\<close>.
\<close>

datatype py_slice = Slice "int option" "int option" "int option"

definition slice_indices :: "py_slice \<Rightarrow> int \<Rightarrow> py_error + (int \<times> int \<times> int)" where
  \<comment> \<open>\<open>slice.indices(length)\<close>: a zero step raises; the bounds are clipped to the length\<close>
  "slice_indices s len =
     (case s of Slice start stop step \<Rightarrow>
        (let st = (case step of None \<Rightarrow> 1 | Some k \<Rightarrow> k) in
         if st = 0 then Inl ValueError
         else
           (let lower = (if st < 0 then - 1 else 0);
                upper = (if st < 0 then len - 1 else len);
                clip = (\<lambda>i. if i < 0 then max (i + len) lower else min i upper);
                lo = (case start of None \<Rightarrow> (if st < 0 then upper else lower) | Some i \<Rightarrow> clip i);
                hi = (case stop of None \<Rightarrow> (if st < 0 then lower else upper) | Some i \<Rightarrow> clip i)
            in Inr (lo, hi, st))))"

definition range_len :: "int \<Rightarrow> int \<Rightarrow> int \<Rightarrow> nat" where
  \<comment> \<open>the number of entries of \<open>range(lo, hi, st)\<close>, for a non-zero step\<close>
  "range_len lo hi st =
     (if 0 < st \<and> lo < hi then nat ((hi - lo - 1) div st) + 1
      else if st < 0 \<and> hi < lo then nat ((lo - hi - 1) div (- st)) + 1
      else 0)"

definition py_range :: "int \<Rightarrow> int \<Rightarrow> int \<Rightarrow> int list" where
  "py_range lo hi st = map (\<lambda>k. lo + int k * st) [0..<range_len lo hi st]"

definition getitem :: "'a list \<Rightarrow> int \<Rightarrow> py_error + 'a" where
  \<comment> \<open>\<open>xs[i]\<close> for an integer: negative indices count from the end, out of range raises\<close>
  "getitem xs i =
     (let n = int (length xs); j = (if i < 0 then i + n else i)
      in if 0 \<le> j \<and> j < n then Inr (xs ! nat j) else Inl IndexError)"

fun collect :: "(py_error + 'a) list \<Rightarrow> py_error + 'a list" where
  \<comment> \<open>a list built entry by entry: the first entry that raises ends the construction\<close>
  "collect [] = Inr []"
| "collect (Inl e # rs) = Inl e"
| "collect (Inr v # rs) = (case collect rs of Inl e \<Rightarrow> Inl e | Inr vs \<Rightarrow> Inr (v # vs))"

definition read_traj :: "'a list \<Rightarrow> py_slice \<Rightarrow> py_error + 'a list" where
  "read_traj stored index =
     (case slice_indices index (int (length stored)) of
        Inl e \<Rightarrow> Inl e
      | Inr (lo, hi, st) \<Rightarrow> collect (map (getitem stored) (py_range lo hi st)))"

definition training_index :: py_slice where
  \<comment> \<open>\<open>"::10"\<close>\<close>
  "training_index = Slice None None (Some 10)"

definition load_training :: "'a list \<Rightarrow> py_error + 'a list" where
  "load_training stored = read_traj stored training_index"


section \<open>Atomic structures\<close>

text \<open>
  An atomic structure: chemical symbols, positions, cell, periodic-boundary flags and the
  attached calculator. The notebooks only set orthorhombic cells, so the cell is kept as its
  three edge lengths; a new structure has the zero cell and no periodic direction.
  Calculators are external objects of a type \<open>'c\<close>.
\<close>

type_synonym vec3 = "real \<times> real \<times> real"

record 'c atoms =
  symbols :: "string list"
  positions :: "vec3 list"
  cell :: vec3
  pbc :: "bool \<times> bool \<times> bool"
  calc :: "'c option"

definition Atoms :: "string list \<Rightarrow> vec3 list \<Rightarrow> py_error + 'c atoms" where
  \<comment> \<open>\<open>Atoms(symbols, positions)\<close>: the position array must have one row per symbol\<close>
  "Atoms syms pos =
     (if length pos \<noteq> length syms then Inl ValueError
      else Inr \<lparr>symbols = syms, positions = pos, cell = (0, 0, 0),
                pbc = (False, False, False), calc = None\<rparr>)"

definition set_cell :: "'c atoms \<Rightarrow> vec3 \<Rightarrow> 'c atoms" where
  "set_cell a c = a\<lparr>cell := c\<rparr>"

definition set_calculator :: "'c atoms \<Rightarrow> 'c \<Rightarrow> 'c atoms" where
  "set_calculator a c = a\<lparr>calc := Some c\<rparr>"

definition wrap_coord :: "bool \<Rightarrow> real \<Rightarrow> real \<Rightarrow> real" where
  \<comment> \<open>one coordinate of \<open>wrap_positions\<close> with the default centre and \<open>eps = 1e-7\<close>: the
      fractional coordinate is shifted by \<open>eps\<close>, reduced modulo 1 and shifted back\<close>
  "wrap_coord periodic L x =
     (if periodic
      then (let eps = 1 / 10 ^ 7; f = x / L + eps in (f - of_int \<lfloor>f\<rfloor> - eps) * L)
      else x)"

definition wrap :: "'c atoms \<Rightarrow> bool \<times> bool \<times> bool \<Rightarrow> py_error + 'c atoms" where
  \<comment> \<open>\<open>atoms.wrap(pbc=...)\<close>: positions are wrapped into the cell along the directions
      given; a periodic direction with a zero cell vector fails the assertion of
      \<open>wrap_positions\<close>. The structure's own flags are not changed.\<close>
  "wrap a flags =
     (case (flags, cell a) of ((px, py, pz), (lx, ly, lz)) \<Rightarrow>
        if (px \<and> lx = 0) \<or> (py \<and> ly = 0) \<or> (pz \<and> lz = 0) then Inl AssertionError
        else Inr (a\<lparr>positions :=
               map (\<lambda>(x, y, z). (wrap_coord px lx x, wrap_coord py ly y, wrap_coord pz lz z))
                 (positions a)\<rparr>))"


section \<open>The generation loop of the symmetry-function notebook\<close>

definition linspace :: "real \<Rightarrow> real \<Rightarrow> nat \<Rightarrow> real list" where
  \<comment> \<open>\<open>np.linspace(start, stop, num)\<close>: \<open>arange(0, num) * step + start\<close> with
      \<open>step = (stop - start) / (num - 1)\<close>, the last entry set to \<open>stop\<close> when \<open>num > 1\<close>\<close>
  "linspace start stop num =
     (if num = 0 then []
      else if num = 1 then [start]
      else (map (\<lambda>i. real i * ((stop - start) / real (num - 1)) + start) [0..<num])
             [num - 1 := stop])"

definition cuco_symbols :: "string list" where
  \<comment> \<open>the formula \<open>"CuCO"\<close>\<close>
  "cuco_symbols = [''Cu'', ''C'', ''O'']"

definition cuco_initial_positions :: "real \<Rightarrow> vec3 list" where
  \<comment> \<open>the positions handed to \<open>Atoms\<close> for the bond length \<open>d\<close> (the loop's \<open>dist\<close>)\<close>
  "cuco_initial_positions d =
     [(- d * sin 0.65, d * cos 0.65, 0),
      (0, 0, 0),
      (d * sin 0.65, d * cos 0.65, 0)]"

definition cuco_image :: "'c \<Rightarrow> real \<Rightarrow> py_error + 'c atoms" where
  \<comment> \<open>the body of the loop, with \<open>emt\<close> the calculator \<open>EMT()\<close>\<close>
  "cuco_image emt d =
     (case Atoms cuco_symbols (cuco_initial_positions d) of
        Inl e \<Rightarrow> Inl e
      | Inr img \<Rightarrow>
          (case wrap (set_cell img (10, 10, 10)) (True, True, True) of
             Inl e \<Rightarrow> Inl e
           | Inr img' \<Rightarrow> Inr (set_calculator img' emt)))"

definition generate_images :: "'c \<Rightarrow> real \<Rightarrow> real \<Rightarrow> nat \<Rightarrow> py_error + 'c atoms list" where
  "generate_images emt lo hi num = collect (map (cuco_image emt) (linspace lo hi num))"

definition cuco_distances :: "real list" where
  "cuco_distances = linspace 2 5 100"

definition cuco_images :: "'c \<Rightarrow> py_error + 'c atoms list" where
  "cuco_images emt = generate_images emt 2 5 100"

definition distance :: "vec3 \<Rightarrow> vec3 \<Rightarrow> real" where
  \<comment> \<open>the Euclidean distance of two points\<close>
  "distance p q =
     (case (p, q) of ((x, y, z), (x', y', z')) \<Rightarrow>
        sqrt ((x - x') ^ 2 + (y - y') ^ 2 + (z - z') ^ 2))"

definition translate :: "vec3 \<Rightarrow> vec3 \<Rightarrow> vec3" where
  "translate p t = (case (p, t) of ((x, y, z), (tx, ty, tz)) \<Rightarrow> (x + tx, y + ty, z + tz))"


section \<open>The error metrics\<close>

lemma sum_list_map2_nth:
  assumes "length xs = length ys"
  shows "sum_list (map (\<lambda>(x, y). f x y) (zip xs ys)) = (\<Sum>i<length xs. f (xs ! i) (ys ! i))"
proof -
  have "sum_list (map (\<lambda>(x, y). f x y) (zip xs ys))
      = (\<Sum>i = 0..<length xs. map (\<lambda>(x, y). f x y) (zip xs ys) ! i)"
    using assms by (simp add: sum_list_sum_nth)
  also have "\<dots> = (\<Sum>i = 0..<length xs. f (xs ! i) (ys ! i))"
    using assms by (intro sum.cong) simp_all
  finally show ?thesis by (simp add: atLeast0LessThan)
qed

lemma np_sub_same_length:
  "length xs = length ys \<Longrightarrow> np_sub xs ys = Inr (map2 (-) xs ys)"
  by (simp add: np_sub_def)

lemma square_diffs_sum:
  assumes "length T = length P"
  shows "sum_list (np_square (map2 (-) T P)) = (\<Sum>i<length T. (T ! i - P ! i) ^ 2)"
proof -
  have "np_square (map2 (-) T P) = map (\<lambda>(x, y). (x - y) ^ 2) (zip T P)"
    by (simp add: np_square_def case_prod_unfold)
  then show ?thesis
    using sum_list_map2_nth [OF assms, of "\<lambda>x y. (x - y) ^ 2"] by simp
qed

lemma abs_diffs_sum:
  assumes "length T = length P"
  shows "sum_list (np_abs (map2 (-) T P)) = (\<Sum>i<length T. \<bar>T ! i - P ! i\<bar>)"
proof -
  have "np_abs (map2 (-) T P) = map (\<lambda>(x, y). \<bar>x - y\<bar>) (zip T P)"
    by (simp add: np_abs_def case_prod_unfold)
  then show ?thesis
    using sum_list_map2_nth [OF assms, of "\<lambda>x y. \<bar>x - y\<bar>"] by simp
qed

lemma energy_mse_value:
  assumes "length T = length P" and "T \<noteq> []"
  shows "energy_mse T P = Inr (Fin (mse_reference T P))"
proof -
  let ?d = "map2 (-) T P"
  have len: "length (np_square ?d) = length T"
    using assms by (simp add: np_square_def)
  then have ne: "np_square ?d \<noteq> []"
    using assms by (metis length_0_conv)
  have "energy_mse T P = Inr (np_mean (np_square ?d))"
    using assms by (simp add: energy_mse_def np_sub_same_length)
  also have "np_mean (np_square ?d) = Fin (sum_list (np_square ?d) / real (length T))"
    using ne len by (simp add: np_mean_def)
  finally show ?thesis
    using assms by (simp add: square_diffs_sum mse_reference_def)
qed

lemma energy_mae_value:
  assumes "length T = length P" and "T \<noteq> []"
  shows "energy_mae T P = Inr (Fin (mae_reference T P))"
proof -
  let ?d = "map2 (-) T P"
  have len: "length (np_abs ?d) = length T"
    using assms by (simp add: np_abs_def)
  then have ne: "np_abs ?d \<noteq> []"
    using assms by (metis length_0_conv)
  have "energy_mae T P = Inr (np_mean (np_abs ?d))"
    using assms by (simp add: energy_mae_def np_sub_same_length)
  also have "np_mean (np_abs ?d) = Fin (sum_list (np_abs ?d) / real (length T))"
    using ne len by (simp add: np_mean_def)
  finally show ?thesis
    using assms by (simp add: abs_diffs_sum mae_reference_def)
qed

lemma mse_reference_nonneg: "0 \<le> mse_reference T P"
  by (simp add: mse_reference_def sum_nonneg)

lemma mae_reference_nonneg: "0 \<le> mae_reference T P"
  by (simp add: mae_reference_def sum_nonneg)

lemma energy_mse_empty: "energy_mse [] [] = Inr NaN"
  by (simp add: energy_mse_def np_sub_def np_square_def np_mean_def)

lemma energy_mae_empty: "energy_mae [] [] = Inr NaN"
  by (simp add: energy_mae_def np_sub_def np_abs_def np_mean_def)

text \<open>
  C1. For true energies \<open>T\<close> and predicted energies \<open>P\<close> of equal length \<open>N > 0\<close>, the
  computed metrics are the reference ones: the MSE is the mean of \<open>(T\<^sub>i - P\<^sub>i)\<^sup>2\<close> and the
  MAE is the mean of \<open>|T\<^sub>i - P\<^sub>i|\<close>.
\<close>

theorem metrics_equal_reference:
  assumes "length T = length P" and "0 < length T"
  shows "energy_mse T P = Inr (Fin (mse_reference T P))
       \<and> energy_mae T P = Inr (Fin (mae_reference T P))"
proof -
  from assms have "T \<noteq> []" by auto
  with assms show ?thesis
    by (simp add: energy_mse_value energy_mae_value)
qed

theorem metrics_equal_reference_witness:
  "length [1, 2, 4 :: real] = length [2, 2, 1 :: real] \<and> 0 < length [1, 2, 4 :: real]
   \<and> energy_mse [1, 2, 4] [2, 2, 1] = Inr (Fin (10 / 3))
   \<and> energy_mae [1, 2, 4] [2, 2, 1] = Inr (Fin (4 / 3))"
  using metrics_equal_reference [of "[1, 2, 4]" "[2, 2, 1]"]
  by (simp add: mse_reference_def mae_reference_def lessThan_Suc numeral_3_eq_3)

text \<open>
  C2, as stated: for every pair of equal-length sequences with \<open>P\<close> equal to \<open>T\<close>
  elementwise, both metrics are 0. The pair of empty sequences is such a pair, and there
  both metrics are \<open>nan\<close>.
\<close>

theorem metrics_zero_counterexample:
  "length ([] :: real list) = length ([] :: real list)
   \<and> \<not> (energy_mse [] [] = Inr (Fin 0) \<and> energy_mae [] [] = Inr (Fin 0))"
  by (simp add: energy_mse_empty)

text \<open>
  C2, amended: for every pair of non-empty equal-length sequences with \<open>P\<close> equal to \<open>T\<close>
  elementwise, the computed MSE is 0 and the computed MAE is 0.
\<close>

theorem metrics_zero_on_equal:
  assumes "length P = length T" and "\<forall>i<length T. P ! i = T ! i" and "T \<noteq> []"
  shows "energy_mse T P = Inr (Fin 0) \<and> energy_mae T P = Inr (Fin 0)"
proof -
  have "mse_reference T P = 0"
    using assms(2) by (simp add: mse_reference_def)
  moreover have "mae_reference T P = 0"
    using assms(2) by (simp add: mae_reference_def)
  moreover have "length T = length P"
    using assms(1) by simp
  ultimately show ?thesis
    using assms(3) by (simp add: energy_mse_value energy_mae_value)
qed

theorem metrics_zero_on_equal_witness:
  "length [3, 5 :: real] = length [3, 5 :: real] \<and> [3, 5 :: real] \<noteq> []
   \<and> energy_mse [3, 5] [3, 5] = Inr (Fin 0) \<and> energy_mae [3, 5] [3, 5] = Inr (Fin 0)"
proof -
  have same: "\<forall>i<length [3, 5 :: real]. [3, 5 :: real] ! i = [3, 5] ! i"
    by simp
  show ?thesis
    using metrics_zero_on_equal [of "[3, 5]" "[3, 5]"] same by simp
qed

text \<open>
  C3, as stated: for every pair of equal-length sequences both metrics are non-negative.
  For the pair of empty sequences both are \<open>nan\<close>, which is not \<open>>= 0\<close>.
\<close>

theorem metrics_nonneg_counterexample:
  "length ([] :: real list) = length ([] :: real list)
   \<and> \<not> (metric_nonneg (energy_mse [] []) \<and> metric_nonneg (energy_mae [] []))"
  by (simp add: energy_mse_empty)

text \<open>
  C3, amended: for every pair of non-empty equal-length sequences, the computed MSE is
  non-negative and the computed MAE is non-negative.
\<close>

theorem metrics_nonneg:
  assumes "length T = length P" and "T \<noteq> []"
  shows "metric_nonneg (energy_mse T P) \<and> metric_nonneg (energy_mae T P)"
  using assms
  by (simp add: energy_mse_value energy_mae_value mse_reference_nonneg mae_reference_nonneg)

theorem metrics_nonneg_witness:
  "length [1, - 2 :: real] = length [4, 7 :: real] \<and> [1, - 2 :: real] \<noteq> []
   \<and> metric_nonneg (energy_mse [1, - 2] [4, 7]) \<and> metric_nonneg (energy_mae [1, - 2] [4, 7])"
  using metrics_nonneg [of "[1, - 2]" "[4, 7]"] by simp

text \<open>
  C4. For an empty structure collection (no true and no predicted energy) the computation
  raises nothing and reports both metrics as undefined, \<open>nan\<close>: it does not produce a zero.
\<close>

theorem metrics_of_empty_collection:
  "energy_mse [] [] = Inr NaN \<and> energy_mae [] [] = Inr NaN
   \<and> energy_mse [] [] \<noteq> Inr (Fin 0) \<and> energy_mae [] [] \<noteq> Inr (Fin 0)"
  by (simp add: energy_mse_empty energy_mae_empty)


section \<open>The trajectory loader\<close>

lemma collect_map_Inr:
  assumes "\<And>x. x \<in> set xs \<Longrightarrow> f x = Inr (g x)"
  shows "collect (map f xs) = Inr (map g xs)"
  using assms by (induction xs) simp_all

lemma slice_indices_training:
  "0 \<le> n \<Longrightarrow> slice_indices training_index n = Inr (0, n, 10)"
  by (simp add: slice_indices_def training_index_def)

lemma range_len_step10:
  "range_len 0 (int n) 10 = (n + 9) div 10"
  by (simp add: range_len_def) linarith

lemma py_range_step10:
  "py_range 0 (int n) 10 = map (\<lambda>k. 10 * int k) [0..<(n + 9) div 10]"
  by (simp add: py_range_def range_len_step10)

lemma getitem_step10:
  assumes "k < (n + 9) div 10" and "length stored = n"
  shows "getitem stored (10 * int k) = Inr (stored ! (10 * k))"
proof -
  from assms(1) have "10 * k < n" by linarith
  then have "10 * int k < int (length stored)" using assms(2) by simp
  moreover have "nat (10 * int k) = 10 * k" by simp
  ultimately show ?thesis by (simp add: getitem_def Let_def)
qed

lemma load_training_value:
  "load_training stored
     = Inr (map (\<lambda>k. stored ! (10 * k)) [0..<(length stored + 9) div 10])"
proof -
  let ?n = "length stored"
  have "collect (map (getitem stored) (map (\<lambda>k. 10 * int k) [0..<(?n + 9) div 10]))
      = Inr (map (\<lambda>k. stored ! (10 * k)) [0..<(?n + 9) div 10])"
    unfolding map_map comp_def
    by (rule collect_map_Inr) (simp add: getitem_step10)
  then show ?thesis
    by (simp add: load_training_def read_traj_def slice_indices_training py_range_step10)
qed

lemma ceiling_tenth: "\<lceil>real n / 10\<rceil> = int ((n + 9) div 10)"
proof -
  have "\<lceil>real n / 10\<rceil> = \<lceil>of_int (int n) / of_int 10 :: real\<rceil>" by simp
  also have "\<dots> = - (- int n div 10)" by (rule ceiling_divide_eq_div)
  also have "\<dots> = int ((n + 9) div 10)" by linarith
  finally show ?thesis .
qed

text \<open>
  C6. The loader reads the trajectory with the index \<open>"::10"\<close>: from \<open>N\<close> stored entries it
  returns exactly \<open>\<lceil>N / 10\<rceil>\<close> structures, the \<open>i\<close>-th of them the stored entry at index
  \<open>10 * i\<close>.
\<close>

theorem loader_every_tenth:
  "\<exists>r. load_training stored = Inr r
       \<and> int (length r) = \<lceil>real (length stored) / 10\<rceil>
       \<and> (\<forall>i<length r. r ! i = stored ! (10 * i))"
  by (simp add: load_training_value ceiling_tenth)

theorem loader_every_tenth_witness:
  "load_training [0, 1, 2, 3, 4, 5, 6, 7, 8, 9, 10, 11 :: nat] = Inr [0, 10]"
proof -
  let ?s = "[0, 1, 2, 3, 4, 5, 6, 7, 8, 9, 10, 11 :: nat]"
  obtain r where r: "load_training ?s = Inr r"
      "int (length r) = \<lceil>real (length ?s) / 10\<rceil>"
      "\<forall>i<length r. r ! i = ?s ! (10 * i)"
    using loader_every_tenth [of ?s] by blast
  from r(2) have len: "length r = 2" by simp
  with r(3) have "r ! 0 = 0" "r ! 1 = 10" by simp_all
  with len have "r = [0, 10]"
    by (auto simp add: numeral_2_eq_2 length_Suc_conv)
  with r(1) show ?thesis by simp
qed


section \<open>The generation loop\<close>

lemma cos_065_bounds: "1 / 2 \<le> cos (0.65 :: real)" "cos (0.65 :: real) \<le> 1"
proof -
  have "(0.65 :: real) \<le> pi / 3" using pi_ge_two by simp
  moreover have "pi / 3 \<le> pi" using pi_ge_two by simp
  ultimately have "cos (pi / 3) \<le> cos (0.65 :: real)"
    by (intro cos_monotone_0_pi_le) simp_all
  then show "1 / 2 \<le> cos (0.65 :: real)" by (simp add: cos_60)
  show "cos (0.65 :: real) \<le> 1" by simp
qed

lemma sin_065_bounds: "3 / 10 \<le> sin (0.65 :: real)" "sin (0.65 :: real) \<le> 1"
proof -
  obtain t :: real where t: "0 < t" "t < 0.65"
      and eq: "sin (0.65 :: real)
        = (\<Sum>m<1. sin_coeff m * 0.65 ^ m) + (sin (t + 1 / 2 * real 1 * pi) / fact 1) * 0.65 ^ 1"
    using Maclaurin_sin_expansion3 [of 1 "0.65"] by auto
  have "sin (t + pi / 2) = cos t"
    by (simp add: sin_add)
  with eq have sin_eq: "sin (0.65 :: real) = cos t * 0.65"
    by simp
  have "t \<le> pi / 3" using t(2) pi_ge_two by simp
  moreover have "pi / 3 \<le> pi" using pi_ge_two by simp
  ultimately have "cos (pi / 3) \<le> cos t"
    using t(1) by (intro cos_monotone_0_pi_le) simp_all
  then have "1 / 2 \<le> cos t" by (simp add: cos_60)
  with sin_eq show "3 / 10 \<le> sin (0.65 :: real)" by simp
  show "sin (0.65 :: real) \<le> 1" by simp
qed

lemma wrap_coord_inside:
  assumes "0 \<le> x" and "x \<le> 9"
  shows "wrap_coord True 10 x = x"
proof -
  have "\<lfloor>x / 10 + 1 / 10 ^ 7\<rfloor> = 0"
    using assms by (intro floor_unique) simp_all
  then show ?thesis by (simp add: wrap_coord_def Let_def)
qed

lemma wrap_coord_below:
  assumes "- 10 \<le> x" and "x \<le> - (1 / 2)"
  shows "wrap_coord True 10 x = x + 10"
proof -
  have "\<lfloor>x / 10 + 1 / 10 ^ 7\<rfloor> = - 1"
    using assms by (intro floor_unique) simp_all
  then show ?thesis by (simp add: wrap_coord_def Let_def)
qed


lemma length_linspace: "length (linspace a b n) = n"
  by (simp add: linspace_def)

lemma linspace_nth:
  assumes "i < n" and "1 < n"
  shows "linspace a b n ! i
       = (if i = n - 1 then b else real i * ((b - a) / real (n - 1)) + a)"
  using assms by (simp add: linspace_def nth_list_update)

lemma linspace_bounds:
  assumes "a \<le> b" and "x \<in> set (linspace a b n)"
  shows "a \<le> x \<and> x \<le> b"
proof -
  from assms(2) obtain i where i: "i < n" and x: "x = linspace a b n ! i"
    by (metis in_set_conv_nth length_linspace)
  show ?thesis
  proof (cases "n = 1")
    case True
    with i x assms(1) show ?thesis by (simp add: linspace_def)
  next
    case False
    with i have n: "1 < n" by simp
    show ?thesis
    proof (cases "i = n - 1")
      case True
      with x i n assms(1) show ?thesis by (simp add: linspace_nth)
    next
      case False
      let ?step = "(b - a) / real (n - 1)"
      have step: "0 \<le> ?step" using assms(1) n by simp
      have "real i \<le> real (n - 1)" using i by simp
      then have "real i * ?step \<le> real (n - 1) * ?step"
        using step by (rule mult_right_mono)
      also have "\<dots> = b - a" using n by simp
      finally have up: "real i * ?step \<le> b - a" .
      have "0 \<le> real i * ?step" using step by (intro mult_nonneg_nonneg) simp_all
      with up x i n False show ?thesis by (simp add: linspace_nth)
    qed
  qed
qed

lemma cuco_image_value:
  assumes "2 \<le> d" and "d \<le> 5"
  shows "cuco_image emt d
       = Inr \<lparr>symbols = cuco_symbols,
               positions = [(10 - d * sin 0.65, d * cos 0.65, 0), (0, 0, 0),
                            (d * sin 0.65, d * cos 0.65, 0)],
               cell = (10, 10, 10), pbc = (False, False, False), calc = Some emt\<rparr>"
proof -
  have s0: "0 \<le> sin (0.65 :: real)" and c0: "0 \<le> cos (0.65 :: real)"
    using sin_065_bounds(1) cos_065_bounds(1) by linarith+
  have s_lo: "2 * (3 / 10) \<le> d * sin 0.65"
    using assms(1) sin_065_bounds(1) by (intro mult_mono) simp_all
  have s_hi: "d * sin 0.65 \<le> 5 * 1"
    using assms sin_065_bounds(2) s0 by (intro mult_mono) simp_all
  have c_lo: "0 \<le> d * cos 0.65"
    using assms(1) c0 by (intro mult_nonneg_nonneg) simp_all
  have c_hi: "d * cos 0.65 \<le> 5 * 1"
    using assms cos_065_bounds(2) c0 by (intro mult_mono) simp_all
  have x0: "wrap_coord True 10 (- d * sin 0.65) = 10 - d * sin 0.65"
    using s_lo s_hi wrap_coord_below [of "- d * sin 0.65"] by simp
  have x2: "wrap_coord True 10 (d * sin 0.65) = d * sin 0.65"
    using s_lo s_hi by (intro wrap_coord_inside) simp_all
  have y: "wrap_coord True 10 (d * cos 0.65) = d * cos 0.65"
    using c_lo c_hi by (intro wrap_coord_inside) simp_all
  have z: "wrap_coord True 10 0 = 0"
    by (intro wrap_coord_inside) simp_all
  show ?thesis
    using x0 x2 y z
    by (simp add: cuco_image_def Atoms_def cuco_symbols_def cuco_initial_positions_def
        set_cell_def wrap_def set_calculator_def)
qed

lemma cuco_images_value:
  "cuco_images emt
     = Inr (map (\<lambda>d. \<lparr>symbols = cuco_symbols,
               positions = [(10 - d * sin 0.65, d * cos 0.65, 0), (0, 0, 0),
                            (d * sin 0.65, d * cos 0.65, 0)],
               cell = (10, 10, 10), pbc = (False, False, False), calc = Some emt\<rparr>)
            cuco_distances)"
  unfolding cuco_images_def generate_images_def cuco_distances_def
proof (rule collect_map_Inr)
  fix x :: real
  assume "x \<in> set (linspace 2 5 100)"
  then have "2 \<le> x \<and> x \<le> 5"
    by (intro linspace_bounds) simp_all
  then show "cuco_image emt x
       = Inr \<lparr>symbols = cuco_symbols,
               positions = [(10 - x * sin 0.65, x * cos 0.65, 0), (0, 0, 0),
                            (x * sin 0.65, x * cos 0.65, 0)],
               cell = (10, 10, 10), pbc = (False, False, False), calc = Some emt\<rparr>"
    by (simp add: cuco_image_value)
qed

lemma bond_length:
  assumes "0 \<le> d"
  shows "sqrt ((d * sin (0.65 :: real)) ^ 2 + (d * cos 0.65) ^ 2) = d"
proof -
  have "(d * sin (0.65 :: real)) ^ 2 + (d * cos 0.65) ^ 2
      = d ^ 2 * ((sin 0.65) ^ 2 + (cos 0.65) ^ 2)"
    by (simp only: power_mult_distrib distrib_left)
  also have "\<dots> = d ^ 2" by simp
  finally show ?thesis using assms by simp
qed


lemma length_cuco_distances: "length cuco_distances = 100"
  by (simp add: cuco_distances_def length_linspace)

lemma cuco_distances_range:
  assumes "i < 100"
  shows "2 \<le> cuco_distances ! i \<and> cuco_distances ! i \<le> 5"
proof -
  have "cuco_distances ! i \<in> set (linspace 2 5 100)"
    using assms by (simp add: cuco_distances_def length_linspace)
  then show ?thesis
    unfolding cuco_distances_def by (intro linspace_bounds) simp_all
qed

lemma cuco_distances_first: "cuco_distances ! 0 = 2"
  by (simp add: cuco_distances_def linspace_nth)

lemma distance_outer:
  assumes "0 \<le> d"
  shows "distance (d * sin 0.65, d * cos 0.65, 0) (0, 0, 0) = d"
    and "distance (- d * sin 0.65, d * cos 0.65, 0) (0, 0, 0) = d"
  using bond_length [OF assms] by (simp_all add: distance_def)

text \<open>
  The loop body never raises, so the loop builds one structure per bond length: \<open>num\<close>
  structures from \<open>linspace(lo, hi, num)\<close>, each with three symbols and three positions.
\<close>

lemma cuco_image_defined: "\<exists>a. cuco_image emt d = Inr a"
  by (simp add: cuco_image_def Atoms_def cuco_symbols_def cuco_initial_positions_def
      set_cell_def wrap_def)

lemma collect_map_defined:
  assumes "\<And>x. x \<in> set xs \<Longrightarrow> \<exists>v. f x = Inr v"
  shows "\<exists>vs. collect (map f xs) = Inr vs \<and> length vs = length xs"
  using assms
proof (induction xs)
  case Nil
  show ?case by simp
next
  case (Cons x xs)
  from Cons.prems obtain v where v: "f x = Inr v" by auto
  from Cons obtain vs where "collect (map f xs) = Inr vs" "length vs = length xs" by auto
  with v show ?case by simp
qed

lemma generate_images_length:
  "\<exists>imgs. generate_images emt lo hi num = Inr imgs \<and> length imgs = num"
proof -
  have "\<exists>vs. collect (map (cuco_image emt) (linspace lo hi num)) = Inr vs
          \<and> length vs = length (linspace lo hi num)"
    by (rule collect_map_defined) (rule cuco_image_defined)
  then show ?thesis
    by (simp add: generate_images_def length_linspace)
qed

lemma collect_members:
  assumes "collect rs = Inr vs" and "v \<in> set vs"
  shows "Inr v \<in> set rs"
  using assms
proof (induction rs arbitrary: vs)
  case Nil
  then show ?case by simp
next
  case (Cons r rs)
  show ?case
  proof (cases r)
    case (Inl e)
    with Cons.prems show ?thesis by simp
  next
    case (Inr w)
    with Cons.prems obtain ws where ws: "collect rs = Inr ws" and vs: "vs = w # ws"
      by (cases "collect rs") auto
    show ?thesis
    proof (cases "v = w")
      case True
      with Inr show ?thesis by simp
    next
      case False
      with vs Cons.prems(2) have "v \<in> set ws" by simp
      with Cons.IH [OF ws] show ?thesis by simp
    qed
  qed
qed

lemma cuco_image_atom_count:
  assumes "cuco_image emt d = Inr a"
  shows "length (symbols a) = 3 \<and> length (positions a) = 3"
  using assms
  by (auto simp add: cuco_image_def Atoms_def cuco_symbols_def cuco_initial_positions_def
      set_cell_def wrap_def set_calculator_def)

lemma generated_images_atom_count:
  assumes "generate_images emt lo hi num = Inr imgs" and "a \<in> set imgs"
  shows "length (symbols a) = 3 \<and> length (positions a) = 3"
proof -
  from assms have "Inr a \<in> set (map (cuco_image emt) (linspace lo hi num))"
    unfolding generate_images_def by (rule collect_members)
  then obtain d where "cuco_image emt d = Inr a" by auto
  then show ?thesis by (rule cuco_image_atom_count)
qed

lemma cuco_images_nth:
  assumes "cuco_images emt = Inr imgs" and "i < 100"
  shows "positions (imgs ! i)
       = [(10 - cuco_distances ! i * sin 0.65, cuco_distances ! i * cos 0.65, 0),
          (0, 0, 0),
          (cuco_distances ! i * sin 0.65, cuco_distances ! i * cos 0.65, 0)]"
proof -
  let ?f = "\<lambda>d. \<lparr>symbols = cuco_symbols,
               positions = [(10 - d * sin 0.65, d * cos 0.65, 0), (0, 0, 0),
                            (d * sin 0.65, d * cos 0.65, 0)],
               cell = (10, 10, 10), pbc = (False, False, False), calc = Some emt\<rparr>"
  from assms(1) have "imgs = map ?f cuco_distances"
    by (simp only: cuco_images_value sum.inject)
  moreover have "i < length cuco_distances"
    using assms(2) by (simp only: length_cuco_distances)
  ultimately have "imgs ! i = ?f (cuco_distances ! i)"
    by (simp only: nth_map)
  then show ?thesis
    by (simp only: atoms.simps)
qed


lemma cuco_images_length:
  assumes "cuco_images emt = Inr imgs"
  shows "length imgs = 100"
proof -
  from assms have "imgs = map (\<lambda>d. \<lparr>symbols = cuco_symbols,
               positions = [(10 - d * sin 0.65, d * cos 0.65, 0), (0, 0, 0),
                            (d * sin 0.65, d * cos 0.65, 0)],
               cell = (10, 10, 10), pbc = (False, False, False), calc = Some emt\<rparr>)
            cuco_distances"
    by (simp only: cuco_images_value sum.inject)
  then show ?thesis
    by (simp only: length_map length_cuco_distances)
qed

lemma cuco_images_defined: "\<exists>imgs. cuco_images emt = Inr imgs"
  by (simp only: cuco_images_value) blast

lemma cuco_image_geometry:
  assumes "cuco_images emt = Inr imgs" and "i < 100"
  shows "positions (imgs ! i)
             = [(10 - cuco_distances ! i * sin 0.65, cuco_distances ! i * cos 0.65, 0),
                (0, 0, 0),
                (cuco_distances ! i * sin 0.65, cuco_distances ! i * cos 0.65, 0)]
         \<and> distance (positions (imgs ! i) ! 2) (positions (imgs ! i) ! 1) = cuco_distances ! i
         \<and> distance (translate (positions (imgs ! i) ! 0) (- 10, 0, 0)) (positions (imgs ! i) ! 1)
             = cuco_distances ! i
         \<and> distance (cuco_initial_positions (cuco_distances ! i) ! 0)
              (cuco_initial_positions (cuco_distances ! i) ! 1) = cuco_distances ! i
         \<and> distance (cuco_initial_positions (cuco_distances ! i) ! 2)
              (cuco_initial_positions (cuco_distances ! i) ! 1) = cuco_distances ! i"
proof -
  let ?d = "cuco_distances ! i"
  have d: "0 \<le> ?d"
    using cuco_distances_range [OF assms(2)] by simp
  have pos: "positions (imgs ! i)
             = [(10 - ?d * sin 0.65, ?d * cos 0.65, 0), (0, 0, 0), (?d * sin 0.65, ?d * cos 0.65, 0)]"
    using assms by (rule cuco_images_nth)
  have p2: "positions (imgs ! i) ! 2 = (?d * sin 0.65, ?d * cos 0.65, 0)"
    and p1: "positions (imgs ! i) ! 1 = (0, 0, 0)"
    and p0: "translate (positions (imgs ! i) ! 0) (- 10, 0, 0) = (- ?d * sin 0.65, ?d * cos 0.65, 0)"
    by (simp_all add: pos translate_def)
  have i0: "cuco_initial_positions ?d ! 0 = (- ?d * sin 0.65, ?d * cos 0.65, 0)"
    and i1: "cuco_initial_positions ?d ! 1 = (0, 0, 0)"
    and i2: "cuco_initial_positions ?d ! 2 = (?d * sin 0.65, ?d * cos 0.65, 0)"
    by (simp_all add: cuco_initial_positions_def)
  show ?thesis
    unfolding p2 p1 p0 i0 i1 i2
    using pos distance_outer [OF d] by (intro conjI)
qed

text \<open>
  C10, as stated: every structure the loop produces has atom 0 at
  \<open>(-dist * sin 0.65, dist * cos 0.65, 0)\<close>, at Euclidean distance \<open>dist\<close> from atom 1. The
  loop wraps each structure into its cell of edge 10 after building it, which moves atom 0:
  for the first bond length, \<open>dist = 2\<close>, the structure produced has atom 0 at
  \<open>(10 - 2 * sin 0.65, 2 * cos 0.65, 0)\<close>, and that point is not at distance 2 from atom 1.
\<close>

theorem cuco_mirror_counterexample:
  "hd cuco_distances = 2
   \<and> map_sum id (positions \<circ> hd) (cuco_images ())
       \<noteq> Inr [(- 2 * sin 0.65, 2 * cos 0.65, 0), (0, 0, 0), (2 * sin 0.65, 2 * cos 0.65, 0)]
   \<and> map_sum id (positions \<circ> hd) (cuco_images ())
       = Inr [(10 - 2 * sin 0.65, 2 * cos 0.65, 0), (0, 0, 0), (2 * sin 0.65, 2 * cos 0.65, 0)]
   \<and> distance (10 - 2 * sin 0.65, 2 * cos 0.65, 0) (0, 0, 0) \<noteq> 2"
proof -
  have ne: "cuco_distances \<noteq> []"
    using length_cuco_distances by auto
  then have first: "hd cuco_distances = 2"
    using cuco_distances_first by (simp add: hd_conv_nth)
  have "(10 - 2 * sin (0.65 :: real)) ^ 2 + (2 * cos (0.65 :: real)) ^ 2
      = 100 - 40 * sin 0.65 + 4 * ((sin 0.65) ^ 2 + (cos 0.65) ^ 2)"
    by (simp only: power2_diff power_mult_distrib distrib_left) simp
  also have "\<dots> = 104 - 40 * sin 0.65" by simp
  finally have sq: "(10 - 2 * sin (0.65 :: real)) ^ 2 + (2 * cos (0.65 :: real)) ^ 2
      = 104 - 40 * sin 0.65" .
  have "sqrt (104 - 40 * sin (0.65 :: real)) \<noteq> 2"
  proof
    assume "sqrt (104 - 40 * sin (0.65 :: real)) = 2"
    then have "(sqrt (104 - 40 * sin (0.65 :: real))) ^ 2 = 4" by simp
    moreover have "0 \<le> 104 - 40 * sin (0.65 :: real)"
      using sin_065_bounds(2) by linarith
    ultimately have "104 - 40 * sin (0.65 :: real) = 4" by simp
    with sin_065_bounds(2) show False by linarith
  qed
  with sq have far: "distance (10 - 2 * sin 0.65, 2 * cos 0.65, 0) (0, 0, 0) \<noteq> 2"
    by (simp add: distance_def)
  show ?thesis
    using ne first far
    by (simp add: cuco_images_value hd_map)
qed

text \<open>
  C10, amended: for each of the 100 bond lengths \<open>dist\<close> of the loop, the positions handed
  to \<open>Atoms\<close> are mirror-symmetric about atom 1, which is at the origin, with both outer
  atoms at Euclidean distance \<open>dist\<close> from it. The structure the loop produces is
  wrapped into the cell of edge 10: atom 1 is at the origin, atom 2 at
  \<open>(dist * sin 0.65, dist * cos 0.65, 0)\<close> at distance \<open>dist\<close> from atom 1, and atom 0 at
  \<open>(10 - dist * sin 0.65, dist * cos 0.65, 0)\<close>, its mirror position shifted by one cell
  edge along x, so that it is at distance \<open>dist\<close> from atom 1 once that shift is undone.
\<close>

theorem cuco_structures_geometry:
  "\<exists>imgs. cuco_images emt = Inr imgs \<and> length imgs = 100
     \<and> (\<forall>i<100.
           positions (imgs ! i)
             = [(10 - cuco_distances ! i * sin 0.65, cuco_distances ! i * cos 0.65, 0),
                (0, 0, 0),
                (cuco_distances ! i * sin 0.65, cuco_distances ! i * cos 0.65, 0)]
         \<and> distance (positions (imgs ! i) ! 2) (positions (imgs ! i) ! 1) = cuco_distances ! i
         \<and> distance (translate (positions (imgs ! i) ! 0) (- 10, 0, 0)) (positions (imgs ! i) ! 1)
             = cuco_distances ! i
         \<and> distance (cuco_initial_positions (cuco_distances ! i) ! 0)
              (cuco_initial_positions (cuco_distances ! i) ! 1) = cuco_distances ! i
         \<and> distance (cuco_initial_positions (cuco_distances ! i) ! 2)
              (cuco_initial_positions (cuco_distances ! i) ! 1) = cuco_distances ! i)"
proof -
  obtain imgs where imgs: "cuco_images emt = Inr imgs"
    using cuco_images_defined [of emt] by blast
  show ?thesis
  proof (intro exI [of _ imgs] conjI allI impI)
    show "cuco_images emt = Inr imgs" by (rule imgs)
    show "length imgs = 100" using imgs by (rule cuco_images_length)
  next
    fix i :: nat
    assume i: "i < 100"
    note geo = cuco_image_geometry [OF imgs i]
    show "positions (imgs ! i)
             = [(10 - cuco_distances ! i * sin 0.65, cuco_distances ! i * cos 0.65, 0),
                (0, 0, 0),
                (cuco_distances ! i * sin 0.65, cuco_distances ! i * cos 0.65, 0)]"
      using geo by (elim conjE)
    show "distance (positions (imgs ! i) ! 2) (positions (imgs ! i) ! 1) = cuco_distances ! i"
      using geo by (elim conjE)
    show "distance (translate (positions (imgs ! i) ! 0) (- 10, 0, 0)) (positions (imgs ! i) ! 1)
             = cuco_distances ! i"
      using geo by (elim conjE)
    show "distance (cuco_initial_positions (cuco_distances ! i) ! 0)
              (cuco_initial_positions (cuco_distances ! i) ! 1) = cuco_distances ! i"
      using geo by (elim conjE)
    show "distance (cuco_initial_positions (cuco_distances ! i) ! 2)
              (cuco_initial_positions (cuco_distances ! i) ! 1) = cuco_distances ! i"
      using geo by (elim conjE)
  qed
qed

theorem cuco_structures_geometry_witness:
  "\<exists>imgs. cuco_images () = Inr imgs \<and> length imgs = 100
     \<and> positions (imgs ! 0) = [(10 - 2 * sin 0.65, 2 * cos 0.65, 0), (0, 0, 0),
                               (2 * sin 0.65, 2 * cos 0.65, 0)]
     \<and> distance (positions (imgs ! 0) ! 2) (positions (imgs ! 0) ! 1) = 2"
proof -
  obtain imgs where imgs: "cuco_images () = Inr imgs" and len: "length imgs = 100"
    and geo: "\<forall>i<100.
           positions (imgs ! i)
             = [(10 - cuco_distances ! i * sin 0.65, cuco_distances ! i * cos 0.65, 0),
                (0, 0, 0),
                (cuco_distances ! i * sin 0.65, cuco_distances ! i * cos 0.65, 0)]
         \<and> distance (positions (imgs ! i) ! 2) (positions (imgs ! i) ! 1) = cuco_distances ! i
         \<and> distance (translate (positions (imgs ! i) ! 0) (- 10, 0, 0)) (positions (imgs ! i) ! 1)
             = cuco_distances ! i
         \<and> distance (cuco_initial_positions (cuco_distances ! i) ! 0)
              (cuco_initial_positions (cuco_distances ! i) ! 1) = cuco_distances ! i
         \<and> distance (cuco_initial_positions (cuco_distances ! i) ! 2)
              (cuco_initial_positions (cuco_distances ! i) ! 1) = cuco_distances ! i"
    using cuco_structures_geometry [of "()"] by (elim exE conjE)
  have zero: "(0 :: nat) < 100" by simp
  note first = geo [rule_format, OF zero, unfolded cuco_distances_first]
  show ?thesis
  proof (intro exI [of _ imgs] conjI)
    show "cuco_images () = Inr imgs" by (rule imgs)
    show "length imgs = 100" by (rule len)
    show "positions (imgs ! 0) = [(10 - 2 * sin 0.65, 2 * cos 0.65, 0), (0, 0, 0),
                               (2 * sin 0.65, 2 * cos 0.65, 0)]"
      using first by (elim conjE)
    show "distance (positions (imgs ! 0) ! 2) (positions (imgs ! 0) ! 1) = 2"
      using first by (elim conjE)
  qed
qed

end
